theory Spec2Isabelle
  imports Complex_Main "HOL-Library.AList"
begin

section \<open>Python values, dictionaries and strings\<close>

text \<open>
  The values a YAML document or a keyword argument can hold; a float is carried as the
  rational it denotes. A dictionary is an association list in insertion order, as
  Python's \<^verbatim>\<open>dict\<close> is; a well-formed one has pairwise distinct keys.
\<close>

datatype pyval =
    PNone
  | PBool bool
  | PInt int
  | PFloat rat
  | PStr string
  | PList "pyval list"
  | PDict "(string \<times> pyval) list"

type_synonym pydict = "(string \<times> pyval) list"

definition wf_dict :: "pydict \<Rightarrow> bool" where
  "wf_dict d = distinct (map fst d)"

text \<open>Python's truth value of an object, as \<^verbatim>\<open>if x\<close> and \<^verbatim>\<open>not x\<close> test it.\<close>

fun truthy :: "pyval \<Rightarrow> bool" where
  "truthy PNone = False"
| "truthy (PBool b) = b"
| "truthy (PInt i) = (i \<noteq> 0)"
| "truthy (PFloat r) = (r \<noteq> 0)"
| "truthy (PStr s) = (s \<noteq> [])"
| "truthy (PList xs) = (xs \<noteq> [])"
| "truthy (PDict d) = (d \<noteq> [])"

text \<open>\<^verbatim>\<open>d.get(k)\<close>: the value, or Python's None for a missing key.\<close>

definition dict_get :: "pydict \<Rightarrow> string \<Rightarrow> pyval" where
  "dict_get d k = (case map_of d k of None \<Rightarrow> PNone | Some v \<Rightarrow> v)"

text \<open>\<^verbatim>\<open>d[k] = v\<close>: replaces the value in place, or appends a new key at the end.\<close>

definition dict_set :: "string \<Rightarrow> pyval \<Rightarrow> pydict \<Rightarrow> pydict" where
  "dict_set k v d = AList.update k v d"

text \<open>\<^verbatim>\<open>d.update(e)\<close>: every item of \<open>e\<close> is stored into \<open>d\<close>, in order.\<close>

definition dict_update :: "pydict \<Rightarrow> pydict \<Rightarrow> pydict" where
  "dict_update d e = fold (\<lambda>(k, v). dict_set k v) e d"

text \<open>\<^verbatim>\<open>set(d.keys())\<close>, as a duplicate-free list. Python leaves the iteration order
  of a set unspecified; the list keeps the dictionary's order.\<close>

definition key_set :: "pydict \<Rightarrow> string list" where
  "key_set d = remdups (map fst d)"

text \<open>\<^verbatim>\<open>str.lower()\<close> on the code points below 256: the ASCII capitals and the
  Latin-1 capitals (192 to 222 except the multiplication sign 215) move up by 32.\<close>

definition lower_char :: "char \<Rightarrow> char" where
  "lower_char c =
     (let n = (of_char c :: nat) in
      if (65 \<le> n \<and> n \<le> 90) \<or> (192 \<le> n \<and> n \<le> 222 \<and> n \<noteq> 215)
      then char_of (n + 32) else c)"

definition lower :: "string \<Rightarrow> string" where
  "lower s = map lower_char s"

text \<open>\<^verbatim>\<open>s.split(sep)\<close> for a one-character separator: never an empty list.\<close>

fun split_on :: "char \<Rightarrow> string \<Rightarrow> string list" where
  "split_on sep [] = [[]]"
| "split_on sep (x # xs) =
     (if x = sep then [] # split_on sep xs
      else (case split_on sep xs of
              [] \<Rightarrow> [[x]]
            | y # ys \<Rightarrow> (x # y) # ys))"

text \<open>\<^verbatim>\<open>s.startswith(p)\<close>.\<close>

definition startswith :: "string \<Rightarrow> string \<Rightarrow> bool" where
  "startswith s p = (take (length p) s = p)"

section \<open>Errors, events and the external collaborators\<close>

text \<open>One constructor per \<^verbatim>\<open>raise\<close> of the two modules, and for the exceptions that
  Python itself raises on the paths modelled.\<close>

datatype error =
    SystemExit
  | SyntaxError_missing_equals string
  | SyntaxError_not_a_valid_argument string
  | SyntaxError_invalid_task pyval
  | SyntaxError_invalid_mode pyval
  | ValueError_unpack
  | AttributeError string
  | TypeError
  | KeyError string
  | Exception_model_not_initialized
  | Exception_model_not_initialized_use_new_or_load
  | Exception_dataset_not_provided
  | Exception_unrecognised_task string
  | Exception_task_or_model_not_recognized
  | External_failure string

text \<open>The operation a dispatch resolves to: \<^verbatim>\<open>module.train\<close>, \<^verbatim>\<open>module.val\<close> and
  \<^verbatim>\<open>module.predict\<close> of the task's module, or the exporter.\<close>

datatype operation =
    Module_train string
  | Module_val string
  | Module_predict string
  | Exporter_export

text \<open>What the code does to the outside world, in order: log lines and calls of
  routines that live in other modules.\<close>

datatype event =
    Info_help
  | Info_version
  | Info_not_a_valid_key string "string list"
  | Info_overriding string
  | Info_cfg_file_passed pyval
  | Call_check_yolo
  | Call_print_settings
  | Call_copy_default_config
  | Call_operation operation pydict
  | Call_validator_init string pydict
  | Call_validator string
  | Call_trainer_init string pydict
  | Call_trainer_load_model string
  | Call_trainer_train string

text \<open>The routines and constants imported from outside the modules at hand:
  \<^verbatim>\<open>yaml_load\<close>, \<^verbatim>\<open>check_yaml\<close>, \<^verbatim>\<open>torch.load\<close> (the dictionary a checkpoint file
  holds), \<^verbatim>\<open>difflib.get_close_matches\<close> and the path \<^verbatim>\<open>DEFAULT_CONFIG\<close>. A loader
  gives None where it raises. \<open>run_operation\<close> is the outcome of the operation that a
  dispatch calls with the composed configuration: None when it returns, the exception
  when it raises.\<close>

record env =
  yaml_load :: "string \<Rightarrow> pydict option"
  check_yaml :: "pyval \<Rightarrow> string option"
  torch_load :: "string option \<Rightarrow> pydict option"
  get_close_matches :: "string \<Rightarrow> string list \<Rightarrow> nat \<Rightarrow> rat \<Rightarrow> string list"
  run_operation :: "operation \<Rightarrow> pydict \<Rightarrow> error option"
  DEFAULT_CONFIG :: string

text \<open>A call of a loader: its exception, whatever it is, is the error
  \<open>External_failure\<close> with the routine's name.\<close>

definition call_yaml_load :: "env \<Rightarrow> string \<Rightarrow> error + pydict" where
  "call_yaml_load e p =
     (case yaml_load e p of None \<Rightarrow> Inl (External_failure ''yaml_load'') | Some d \<Rightarrow> Inr d)"

definition call_check_yaml :: "env \<Rightarrow> pyval \<Rightarrow> error + string" where
  "call_check_yaml e v =
     (case check_yaml e v of None \<Rightarrow> Inl (External_failure ''check_yaml'') | Some p \<Rightarrow> Inr p)"

definition call_torch_load :: "env \<Rightarrow> string option \<Rightarrow> error + pydict" where
  "call_torch_load e f =
     (case torch_load e f of None \<Rightarrow> Inl (External_failure ''torch.load'') | Some c \<Rightarrow> Inr c)"

section \<open>\<^verbatim>\<open>ultralytics/yolo/configs/__init__.py\<close>\<close>

text \<open>\<^verbatim>\<open>check_config_mismatch(base, custom)\<close>: one log line per key of \<open>custom\<close> that
  \<open>base\<close> lacks, then \<^verbatim>\<open>sys.exit()\<close> when there is such a key.\<close>

definition check_config_mismatch :: "env \<Rightarrow> pydict \<Rightarrow> pydict \<Rightarrow> event list \<times> (error + unit)" where
  "check_config_mismatch e base custom =
     (let base' = key_set base;
          custom' = key_set custom;
          mismatched = filter (\<lambda>x. x \<notin> set base') custom'
      in (map (\<lambda>option. Info_not_a_valid_key option (get_close_matches e option base' 3 (6 / 10)))
            mismatched,
          if mismatched \<noteq> [] then Inl SystemExit else Inr ()))"

text \<open>The \<open>config\<close> argument of \<^verbatim>\<open>get_config\<close>: a file name or a dictionary.\<close>

datatype config_arg = Config_path string | Config_dict pydict

text \<open>\<^verbatim>\<open>get_config(config, overrides)\<close>. The assertion that \<open>overrides\<close> is a dictionary
  holds by its type. A \<open>config\<close> that is a file name is loaded first. The namespace
  returned is modelled by the merged dictionary \<^verbatim>\<open>{**config, **overrides}\<close>: attribute \<open>k\<close>
  of the namespace is entry \<open>k\<close>.\<close>

definition get_config :: "env \<Rightarrow> config_arg \<Rightarrow> pydict \<Rightarrow> event list \<times> (error + pydict)" where
  "get_config e config overrides =
     (case (case config of Config_path p \<Rightarrow> call_yaml_load e p | Config_dict d \<Rightarrow> Inr d) of
        Inl err \<Rightarrow> ([], Inl err)
      | Inr config' \<Rightarrow>
          (case check_config_mismatch e config' overrides of
             (evs, Inl err) \<Rightarrow> (evs, Inl err)
           | (evs, Inr u) \<Rightarrow>
               (evs, Inr (dict_update (dict_update [] config') overrides))))"

definition tasks :: "string list" where
  "tasks = [''detect'', ''segment'', ''classify'']"

definition modes :: "string list" where
  "modes = [''train'', ''val'', ''predict'', ''export'']"

definition special_modes :: "(string \<times> event) list" where
  "special_modes =
     [(''help'', Info_help),
      (''checks'', Call_check_yolo),
      (''version'', Info_version),
      (''settings'', Call_print_settings),
      (''copy-config'', Call_copy_default_config)]"

text \<open>The outcome of classifying one token: go on with the new overrides, return from
  \<^verbatim>\<open>entrypoint\<close>, or raise.\<close>

datatype step = Continue pydict | Return | Raise error

text \<open>The \<^verbatim>\<open>if\<close>/\<^verbatim>\<open>elif\<close> chain at the head of the loop body, for the token \<open>a\<close>. The
  custom document is loaded from the text after the last \<^verbatim>\<open>=\<close> (\<^verbatim>\<open>a.split('=')[-1]\<close>), the
  notice being logged before the load; \<^verbatim>\<open>k, v = a.split('=')\<close> raises ValueError unless
  the token has exactly one \<^verbatim>\<open>=\<close>; \<^verbatim>\<open>defaults[a] is False\<close> holds for the boolean false
  only.\<close>

definition parse_token :: "env \<Rightarrow> pydict \<Rightarrow> pydict \<Rightarrow> string \<Rightarrow> event list \<times> step" where
  "parse_token e defaults overrides a =
     (if CHR ''='' \<in> set a then
        (if startswith a ''cfg='' then
           (let custom_config = last (split_on CHR ''='' a) in
            case call_yaml_load e custom_config of
              Inl err \<Rightarrow> ([Info_overriding custom_config], Raise err)
            | Inr doc \<Rightarrow>
                ([Info_overriding custom_config],
                 Continue (dict_update [] (filter (\<lambda>(k, v). k \<notin> set [''cfg'']) doc))))
         else
           (case split_on CHR ''='' a of
              [k, v] \<Rightarrow> ([], Continue (dict_set k (PStr v) overrides))
            | _ \<Rightarrow> ([], Raise ValueError_unpack)))
      else if a \<in> set tasks then ([], Continue (dict_set ''task'' (PStr a) overrides))
      else if a \<in> set modes then ([], Continue (dict_set ''mode'' (PStr a) overrides))
      else if a \<in> set (map fst special_modes) then
        (case map_of special_modes a of
           Some ev \<Rightarrow> ([ev], Return)
         | None \<Rightarrow> ([], Raise (KeyError a)))
      else if a \<in> set (map fst defaults) \<and> map_of defaults a = Some (PBool False) then
        ([], Continue (dict_set a (PBool True) overrides))
      else if a \<in> set (map fst defaults) then ([], Raise (SyntaxError_missing_equals a))
      else ([], Raise (SyntaxError_not_a_valid_argument a)))"

text \<open>\<^verbatim>\<open>{...}.get(cfg.task)\<close> and \<^verbatim>\<open>{...}.get(cfg.mode)\<close>: a missing attribute raises, a
  list or a dictionary is unhashable, and any other value that is not a key gives None.\<close>

definition resolve_module :: "pydict \<Rightarrow> error + string" where
  "resolve_module cfg =
     (case map_of cfg ''task'' of
        None \<Rightarrow> Inl (AttributeError ''task'')
      | Some (PStr t) \<Rightarrow> if t \<in> set tasks then Inr t else Inl (SyntaxError_invalid_task (PStr t))
      | Some (PList xs) \<Rightarrow> Inl TypeError
      | Some (PDict d) \<Rightarrow> Inl TypeError
      | Some v \<Rightarrow> Inl (SyntaxError_invalid_task v))"

definition resolve_func :: "string \<Rightarrow> pydict \<Rightarrow> error + operation" where
  "resolve_func task_module cfg =
     (case map_of cfg ''mode'' of
        None \<Rightarrow> Inl (AttributeError ''mode'')
      | Some (PStr m) \<Rightarrow>
          if m = ''train'' then Inr (Module_train task_module)
          else if m = ''val'' then Inr (Module_val task_module)
          else if m = ''predict'' then Inr (Module_predict task_module)
          else if m = ''export'' then Inr Exporter_export
          else Inl (SyntaxError_invalid_mode (PStr m))
      | Some (PList xs) \<Rightarrow> Inl TypeError
      | Some (PDict d) \<Rightarrow> Inl TypeError
      | Some v \<Rightarrow> Inl (SyntaxError_invalid_mode v))"

text \<open>Lines 164 to 179 of the loop body: merge, then resolve the task's module and the
  mode's function.\<close>

definition resolve_operation ::
  "env \<Rightarrow> pydict \<Rightarrow> pydict \<Rightarrow> event list \<times> (error + operation \<times> pydict)" where
  "resolve_operation e defaults overrides =
     (case get_config e (Config_dict defaults) overrides of
        (evs, Inl err) \<Rightarrow> (evs, Inl err)
      | (evs, Inr cfg) \<Rightarrow>
          (case resolve_module cfg of
             Inl err \<Rightarrow> (evs, Inl err)
           | Inr task_module \<Rightarrow>
               (case resolve_func task_module cfg of
                  Inl err \<Rightarrow> (evs, Inl err)
                | Inr func \<Rightarrow> (evs, Inr (func, cfg)))))"

text \<open>The rest of the loop body, lines 164 to 181: the resolution above, then the call
  \<^verbatim>\<open>func(cfg)\<close>. Nothing catches what the operation raises: its exception leaves the
  entry point after the call.\<close>

definition dispatch :: "env \<Rightarrow> pydict \<Rightarrow> pydict \<Rightarrow> event list \<times> (error + unit)" where
  "dispatch e defaults overrides =
     (case resolve_operation e defaults overrides of
        (evs, Inl err) \<Rightarrow> (evs, Inl err)
      | (evs, Inr (func, cfg)) \<Rightarrow>
          (case run_operation e func cfg of
             None \<Rightarrow> (evs @ [Call_operation func cfg], Inr ())
           | Some err \<Rightarrow> (evs @ [Call_operation func cfg], Inl err)))"

text \<open>\<^verbatim>\<open>for a in args:\<close> with the whole body above inside the loop, as the source
  has it.\<close>

fun run_args :: "env \<Rightarrow> pydict \<Rightarrow> pydict \<Rightarrow> string list \<Rightarrow> event list \<times> (error + unit)" where
  "run_args e defaults overrides [] = ([], Inr ())"
| "run_args e defaults overrides (a # args) =
     (case parse_token e defaults overrides a of
        (l1, Return) \<Rightarrow> (l1, Inr ())
      | (l1, Raise err) \<Rightarrow> (l1, Inl err)
      | (l1, Continue overrides') \<Rightarrow>
          (case dispatch e defaults overrides' of
             (l2, Inl err) \<Rightarrow> (l1 @ l2, Inl err)
           | (l2, Inr u) \<Rightarrow>
               (case run_args e defaults overrides' args of
                  (l3, r) \<Rightarrow> (l1 @ l2 @ l3, r))))"

text \<open>\<^verbatim>\<open>entrypoint()\<close> from the assignment \<^verbatim>\<open>args = ['train']\<close> on.\<close>

definition entrypoint_tokens :: "env \<Rightarrow> event list \<times> (error + unit)" where
  "entrypoint_tokens e =
     (let args = [''train''] in
      case call_yaml_load e (DEFAULT_CONFIG e) of
        Inl err \<Rightarrow> ([], Inl err)
      | Inr defaults \<Rightarrow> run_args e defaults [] args)"

text \<open>\<^verbatim>\<open>entrypoint()\<close>, reading the process arguments \<^verbatim>\<open>sys.argv\<close>.\<close>

definition entrypoint :: "env \<Rightarrow> string list \<Rightarrow> event list \<times> (error + unit)" where
  "entrypoint e argv =
     (if int (length argv) = - 1 then ([Info_help], Inr ())
      else entrypoint_tokens e)"



section \<open>\<^verbatim>\<open>ultralytics/yolo/engine/model.py\<close>\<close>

text \<open>\<^verbatim>\<open>str.replace(old, new)\<close>: the occurrences of \<open>old\<close> from left to right, without
  overlap; an empty \<open>old\<close> matches before every character and at the end.\<close>

function replace_from :: "string \<Rightarrow> string \<Rightarrow> string \<Rightarrow> string" where
  "replace_from old new [] = []"
| "replace_from old new (c # cs) =
     (if old \<noteq> [] \<and> startswith (c # cs) old
      then new @ replace_from old new (drop (length old) (c # cs))
      else c # replace_from old new cs)"
  by pat_completeness auto
termination
  by (relation "measure (\<lambda>(old, new, s). length s)") (auto simp: neq_Nil_conv)

definition replace :: "string \<Rightarrow> string \<Rightarrow> string \<Rightarrow> string" where
  "replace s old new =
     (if old = [] then new @ concat (map (\<lambda>c. c # new) s) else replace_from old new s)"

text \<open>\<^verbatim>\<open>MODEL_MAP\<close>: head to model class, trainer, validator and predictor. A class is
  modelled by its dotted name.\<close>

definition MODEL_MAP :: "(string \<times> (string \<times> string \<times> string \<times> string)) list" where
  "MODEL_MAP =
     [(''classify'',
        (''ClassificationModel'', ''yolo.TYPE.classify.ClassificationTrainer'',
         ''yolo.TYPE.classify.ClassificationValidator'',
         ''yolo.TYPE.classify.ClassificationPredictor'')),
      (''detect'',
        (''DetectionModel'', ''yolo.TYPE.detect.DetectionTrainer'',
         ''yolo.TYPE.detect.DetectionValidator'',
         ''yolo.TYPE.detect.DetectionPredictor'')),
      (''segment'',
        (''SegmentationModel'', ''yolo.TYPE.segment.SegmentationTrainer'',
         ''yolo.TYPE.segment.SegmentationValidator'',
         ''yolo.TYPE.segment.SegmentationPredictor''))]"

text \<open>What a trainer was given as its model: nothing yet, the weights of a checkpoint
  (\<^verbatim>\<open>load_model(weights=self.ckpt)\<close>), or the facade's own model.\<close>

datatype trainer_model = No_model | From_checkpoint pydict | Facade_model "string option"

record trainer_obj =
  trainer_class :: string
  trainer_overrides :: pydict
  trainer_model :: trainer_model

text \<open>The fields of \<^verbatim>\<open>class YOLO\<close>. The network object \<open>model\<close> is a handle (a name)
  or None; \<open>ckpt\<close> is the dictionary of a loaded checkpoint or None.\<close>

record yolo =
  type :: string
  ModelClass :: "string option"
  TrainerClass :: "string option"
  ValidatorClass :: "string option"
  PredictorClass :: "string option"
  model :: "string option"
  trainer :: "trainer_obj option"
  task :: pyval
  ckpt :: "pydict option"

text \<open>\<^verbatim>\<open>YOLO.__init__(type)\<close>.\<close>

definition YOLO_init :: "string \<Rightarrow> yolo" where
  "YOLO_init ty =
     \<lparr>type = ty, ModelClass = None, TrainerClass = None, ValidatorClass = None,
      PredictorClass = None, model = None, trainer = None, task = PNone, ckpt = None\<rparr>"

text \<open>\<^verbatim>\<open>YOLO._guess_task_from_head(head)\<close>: three \<^verbatim>\<open>if\<close>s in a row, each of which may
  overwrite \<open>task\<close>, then the test \<^verbatim>\<open>if not task\<close>.\<close>

definition guess_task_from_head :: "string \<Rightarrow> error + string" where
  "guess_task_from_head head =
     (let t0 = None;
          t1 = (if lower head \<in> set [''classify'', ''classifier'', ''cls'', ''fc'']
                then Some ''classify'' else t0);
          t2 = (if lower head \<in> set [''detect''] then Some ''detect'' else t1);
          t3 = (if lower head \<in> set [''segment''] then Some ''segment'' else t2)
      in case t3 of
           None \<Rightarrow> Inl Exception_task_or_model_not_recognized
         | Some t \<Rightarrow> if t = [] then Inl Exception_task_or_model_not_recognized else Inr t)"

text \<open>\<^verbatim>\<open>YOLO._guess_ops_from_task(task)\<close>: \<^verbatim>\<open>MODEL_MAP[task]\<close> raises KeyError for a
  missing key; \<^verbatim>\<open>eval\<close> turns each dotted name into the class it names, which the
  model keeps as the name.\<close>

definition guess_ops_from_task :: "yolo \<Rightarrow> string \<Rightarrow> error + (string \<times> string \<times> string \<times> string)" where
  "guess_ops_from_task self t =
     (case map_of MODEL_MAP t of
        None \<Rightarrow> Inl (KeyError t)
      | Some (model_class, train_lit, val_lit, pred_lit) \<Rightarrow>
          Inr (model_class,
               replace train_lit ''TYPE'' (type self),
               replace val_lit ''TYPE'' (type self),
               replace pred_lit ''TYPE'' (type self)))"

text \<open>\<^verbatim>\<open>YOLO.val(data, **kwargs)\<close>. The \<^verbatim>\<open>get_config\<close> it calls is imported from
  \<^verbatim>\<open>ultralytics.yolo.utils.configs\<close>, which is not among the sources at hand, so it is
  the parameter \<open>gc\<close>.\<close>

definition val ::
  "env \<Rightarrow> (config_arg \<Rightarrow> pydict \<Rightarrow> event list \<times> (error + pydict)) \<Rightarrow> yolo \<Rightarrow> pyval \<Rightarrow> pydict
     \<Rightarrow> event list \<times> (error + unit)" where
  "val e gc self data kwargs =
     (case model self of
        None \<Rightarrow> ([], Inl Exception_model_not_initialized)
      | Some m \<Rightarrow>
          (case gc (Config_path (DEFAULT_CONFIG e)) kwargs of
             (evs, Inl err) \<Rightarrow> (evs, Inl err)
           | (evs, Inr args) \<Rightarrow>
               (let args1 = dict_set ''data'' data args;
                    args2 = dict_set ''task'' (task self) args1
                in case ValidatorClass self of
                     None \<Rightarrow> (evs, Inl TypeError)
                   | Some vc \<Rightarrow>
                       (evs @ [Call_validator_init vc args2, Call_validator vc], Inr ()))))"

text \<open>\<^verbatim>\<open>not self.ckpt\<close>: None and the empty dictionary are false.\<close>

definition ckpt_bound :: "yolo \<Rightarrow> bool" where
  "ckpt_bound self = (case ckpt self of None \<Rightarrow> False | Some c \<Rightarrow> c \<noteq> [])"

text \<open>\<^verbatim>\<open>YOLO.train(**kwargs)\<close>.\<close>

definition train :: "env \<Rightarrow> yolo \<Rightarrow> pydict \<Rightarrow> event list \<times> (error + yolo)" where
  "train e self kwargs =
     (if model self = None \<and> \<not> ckpt_bound self then
        ([], Inl Exception_model_not_initialized_use_new_or_load)
      else
        (case (if truthy (dict_get kwargs ''cfg'') then
                 (case call_check_yaml e (dict_get kwargs ''cfg'') of
                    Inl err \<Rightarrow> ([Info_cfg_file_passed (dict_get kwargs ''cfg'')], Inl err)
                  | Inr p \<Rightarrow> ([Info_cfg_file_passed (dict_get kwargs ''cfg'')], call_yaml_load e p))
               else ([], Inr kwargs)) of
           (evs, Inl err) \<Rightarrow> (evs, Inl err)
         | (evs, Inr overrides0) \<Rightarrow>
             (let overrides1 = dict_set ''task'' (task self) overrides0;
                  overrides2 = dict_set ''mode'' (PStr ''train'') overrides1
              in if \<not> truthy (dict_get overrides2 ''data'') then
                   (evs, Inl Exception_dataset_not_provided)
                 else
                   (case TrainerClass self of
                      None \<Rightarrow> (evs, Inl TypeError)
                    | Some tc \<Rightarrow>
                        (case (if ckpt_bound self then ckpt self else None) of
                           Some c \<Rightarrow>
                             (evs @ [Call_trainer_init tc overrides2, Call_trainer_load_model tc,
                                     Call_trainer_train tc],
                              Inr (self\<lparr>trainer := Some \<lparr>trainer_class = tc,
                                     trainer_overrides = overrides2,
                                     trainer_model = From_checkpoint c\<rparr>\<rparr>))
                         | None \<Rightarrow>
                             (evs @ [Call_trainer_init tc overrides2, Call_trainer_train tc],
                              Inr (self\<lparr>trainer := Some \<lparr>trainer_class = tc,
                                     trainer_overrides = overrides2,
                                     trainer_model = Facade_model (model self)\<rparr>\<rparr>)))))))"

text \<open>Lines 161 to 163 of \<^verbatim>\<open>resume\<close>: the task recorded in the checkpoint \<open>model'\<close>.\<close>

definition checkpoint_task :: "env \<Rightarrow> string option \<Rightarrow> error + pyval" where
  "checkpoint_task e model' =
     (case call_torch_load e model' of
        Inl err \<Rightarrow> Inl err
      | Inr c \<Rightarrow>
          (case map_of c ''train_args'' of
             None \<Rightarrow> Inl (KeyError ''train_args'')
           | Some (PDict train_args) \<Rightarrow>
               (case map_of train_args ''task'' of
                  None \<Rightarrow> Inl (KeyError ''task'')
                | Some t \<Rightarrow> Inr t)
           | Some v \<Rightarrow> Inl TypeError))"

text \<open>\<^verbatim>\<open>YOLO.resume(task=None, model=None)\<close>; the arguments are \<open>task'\<close> and \<open>model'\<close>.\<close>

definition resume :: "env \<Rightarrow> yolo \<Rightarrow> string option \<Rightarrow> string option \<Rightarrow> event list \<times> (error + yolo)" where
  "resume e self task' model' =
     (case (case task' of
              None \<Rightarrow> checkpoint_task e model'
            | Some t \<Rightarrow>
                if t \<noteq> [] then
                  (if lower t \<notin> set (map fst MODEL_MAP) then Inl (Exception_unrecognised_task t)
                   else Inr (PStr t))
                else checkpoint_task e model') of
        Inl err \<Rightarrow> ([], Inl err)
      | Inr (PStr t) \<Rightarrow>
          (case guess_ops_from_task self (lower t) of
             Inl err \<Rightarrow> ([], Inl err)
           | Inr (mc, tc, vc, pc) \<Rightarrow>
               (let ov = [(''task'', PStr (lower t)),
                          (''resume'', (case model' of
                                          None \<Rightarrow> PBool True
                                        | Some m \<Rightarrow> if m \<noteq> [] then PStr m else PBool True))]
                in ([Call_trainer_init tc ov, Call_trainer_train tc],
                    Inr (self\<lparr>ModelClass := Some mc, TrainerClass := Some tc,
                           ValidatorClass := Some vc, PredictorClass := Some pc,
                           trainer := Some \<lparr>trainer_class = tc, trainer_overrides = ov,
                                            trainer_model = No_model\<rparr>\<rparr>))))
      | Inr v \<Rightarrow> ([], Inl (AttributeError ''lower'')))"

section \<open>Notions of the specification and concrete instances\<close>

text \<open>Case variants, said without \<open>lower\<close>: \<open>s\<close> is a case variant of the lower-case
  word \<open>w\<close> when it has the same length and every character of \<open>s\<close> is the letter of
  \<open>w\<close> at that place or its capital.\<close>

definition upper_ascii :: "char \<Rightarrow> char" where
  "upper_ascii d =
     (let n = (of_char d :: nat) in if 97 \<le> n \<and> n \<le> 122 then char_of (n - 32) else d)"

definition case_variant :: "string \<Rightarrow> string \<Rightarrow> bool" where
  "case_variant s w = list_all2 (\<lambda>c d. c = d \<or> c = upper_ascii d) s w"

definition ascii_lowercase :: "string \<Rightarrow> bool" where
  "ascii_lowercase w = list_all (\<lambda>d. 97 \<le> (of_char d :: nat) \<and> (of_char d :: nat) \<le> 122) w"

text \<open>The unknown keys a log reports, each with the similar keys printed beside it.\<close>

fun reported :: "event list \<Rightarrow> (string \<times> string list) list" where
  "reported [] = []"
| "reported (Info_not_a_valid_key k similar # evs) = (k, similar) # reported evs"
| "reported (ev # evs) = reported evs"

text \<open>A small world to run the code in: a defaults document, a custom document, one
  checkpoint file trained for segmentation, a matcher that returns the first \<open>n\<close>
  candidates, and operations that return.\<close>

definition defaults0 :: pydict where
  "defaults0 =
     [(''task'', PStr ''detect''), (''mode'', PStr ''train''), (''data'', PNone),
      (''imgsz'', PInt 640), (''show'', PBool False), (''save'', PBool True),
      (''augment'', PDict [(''hsv'', PInt 1), (''flip'', PInt 2)])]"

definition custom0 :: pydict where
  "custom0 = [(''cfg'', PStr ''other.yaml''), (''imgsz'', PInt 320), (''show'', PBool True)]"

definition env0 :: env where
  "env0 =
     \<lparr>yaml_load = (\<lambda>p. if p = ''default.yaml'' then Some defaults0
                       else if p = ''custom.yaml'' then Some custom0 else None),
      check_yaml = (\<lambda>v. case v of PStr p \<Rightarrow> if p = [] then None else Some p | _ \<Rightarrow> None),
      torch_load = (\<lambda>f. if f = Some ''seg.pt''
                        then Some [(''train_args'', PDict [(''task'', PStr ''segment'')])]
                        else None),
      get_close_matches = (\<lambda>word possibilities n cutoff. take n possibilities),
      run_operation = (\<lambda>func cfg. None),
      DEFAULT_CONFIG = ''default.yaml''\<rparr>"

text \<open>Two override sets for the defaults above: one with two misspelt keys, one whose
  keys are all known and whose \<open>augment\<close> entry is itself a mapping.\<close>

definition bad0 :: pydict where
  "bad0 = [(''imgs'', PInt 320), (''task'', PStr ''segment''), (''shwo'', PBool True)]"

definition good0 :: pydict where
  "good0 = [(''imgsz'', PInt 320), (''augment'', PDict [(''hsv'', PInt 5)])]"

text \<open>Overrides accumulated from earlier tokens.\<close>

definition accumulated0 :: pydict where
  "accumulated0 = [(''imgsz'', PStr ''64''), (''batch'', PStr ''8''), (''task'', PStr ''segment'')]"




text \<open>A facade with a detection model bound, as \<^verbatim>\<open>new\<close> or \<^verbatim>\<open>load\<close> leaves it.\<close>

definition facade0 :: yolo where
  "facade0 = (YOLO_init ''v8'')\<lparr>
     ModelClass := Some ''DetectionModel'',
     TrainerClass := Some ''yolo.v8.detect.DetectionTrainer'',
     ValidatorClass := Some ''yolo.v8.detect.DetectionValidator'',
     PredictorClass := Some ''yolo.v8.detect.DetectionPredictor'',
     model := Some ''yolov8n'', task := PStr ''detect''\<rparr>"

section \<open>Properties\<close>

subsection \<open>Task inference from the head\<close>

lemma lower_char_az:
  assumes "97 \<le> (of_char d :: nat)" "(of_char d :: nat) \<le> 122"
  shows "lower_char c = d \<longleftrightarrow> c = d \<or> c = upper_ascii d"
  using assms unfolding lower_char_def upper_ascii_def Let_def by auto

lemma lower_eq_iff_case_variant:
  "ascii_lowercase w \<Longrightarrow> lower s = w \<longleftrightarrow> case_variant s w"
proof (induction s arbitrary: w)
  case Nil
  then show ?case by (auto simp: lower_def case_variant_def)
next
  case (Cons c cs)
  show ?case
  proof (cases w)
    case Nil
    then show ?thesis by (simp add: lower_def case_variant_def)
  next
    case (Cons d ds)
    with Cons.prems have d: "97 \<le> (of_char d :: nat)" "(of_char d :: nat) \<le> 122"
      and ds: "ascii_lowercase ds"
      by (simp_all add: ascii_lowercase_def)
    have "lower cs = ds \<longleftrightarrow> case_variant cs ds" using Cons.IH [OF ds] .
    then show ?thesis
      using lower_char_az [OF d, of c] Cons
      by (auto simp: lower_def case_variant_def)
  qed
qed

lemma words_lowercase:
  "ascii_lowercase ''classify''" "ascii_lowercase ''classifier''" "ascii_lowercase ''cls''"
  "ascii_lowercase ''fc''" "ascii_lowercase ''detect''" "ascii_lowercase ''segment''"
  by (simp_all add: ascii_lowercase_def)

text \<open>
  C5: the task inferred from a head identifier depends on the identifier up to case only:
  every case variant of "classify", "classifier", "cls" or "fc" gives classify, every
  case variant of "detect" gives detect, every case variant of "segment" gives segment,
  and every other string raises the error "task or model not recognized".
\<close>

theorem guess_task_from_head_case_insensitive:
  "guess_task_from_head head =
     (if case_variant head ''classify'' \<or> case_variant head ''classifier''
         \<or> case_variant head ''cls'' \<or> case_variant head ''fc'' then Inr ''classify''
      else if case_variant head ''detect'' then Inr ''detect''
      else if case_variant head ''segment'' then Inr ''segment''
      else Inl Exception_task_or_model_not_recognized)"
proof -
  have iff: "\<And>w. ascii_lowercase w \<Longrightarrow> (lower head = w) = case_variant head w"
    by (rule lower_eq_iff_case_variant)
  have c: "case_variant head ''classify'' = (lower head = ''classify'')"
    "case_variant head ''classifier'' = (lower head = ''classifier'')"
    "case_variant head ''cls'' = (lower head = ''cls'')"
    "case_variant head ''fc'' = (lower head = ''fc'')"
    "case_variant head ''detect'' = (lower head = ''detect'')"
    "case_variant head ''segment'' = (lower head = ''segment'')"
    using iff words_lowercase by simp_all
  show ?thesis
    unfolding c guess_task_from_head_def Let_def by auto
qed

theorem guess_task_from_head_witness:
  "guess_task_from_head ''ClS'' = Inr ''classify''
   \<and> guess_task_from_head ''SEGMENT'' = Inr ''segment''
   \<and> guess_task_from_head ''pose'' = Inl Exception_task_or_model_not_recognized"
proof -
  have a: "case_variant ''ClS'' ''cls''" by code_simp
  have b: "\<not> case_variant ''SEGMENT'' ''classify''" "\<not> case_variant ''SEGMENT'' ''classifier''"
    "\<not> case_variant ''SEGMENT'' ''cls''" "\<not> case_variant ''SEGMENT'' ''fc''"
    "\<not> case_variant ''SEGMENT'' ''detect''" "case_variant ''SEGMENT'' ''segment''"
    by code_simp+
  have c: "\<not> case_variant ''pose'' ''classify''" "\<not> case_variant ''pose'' ''classifier''"
    "\<not> case_variant ''pose'' ''cls''" "\<not> case_variant ''pose'' ''fc''"
    "\<not> case_variant ''pose'' ''detect''" "\<not> case_variant ''pose'' ''segment''"
    by code_simp+
  show ?thesis
    using guess_task_from_head_case_insensitive [of "''ClS''"]
      guess_task_from_head_case_insensitive [of "''SEGMENT''"]
      guess_task_from_head_case_insensitive [of "''pose''"]
    by (simp only: a b c if_True if_False simp_thms)
qed

subsection \<open>The entry point's guard\<close>

text \<open>
  C10: the branch "no arguments passed" of the entry point is never taken: the length of
  an argument list is never -1, so for every argument vector the entry point goes on to
  process its tokens.
\<close>

theorem entrypoint_help_branch_unreachable:
  "int (length argv) \<noteq> - 1 \<and> entrypoint e argv = entrypoint_tokens e"
  by (simp add: entrypoint_def)

subsection \<open>Dictionaries\<close>

lemma fold_dict_set_append:
  "distinct (map fst (d @ c)) \<Longrightarrow> fold (\<lambda>(k, v). dict_set k v) c d = d @ c"
proof (induction c arbitrary: d)
  case Nil
  then show ?case by simp
next
  case (Cons x c)
  obtain k v where x: "x = (k, v)" by (cases x)
  have notin: "k \<notin> set (map fst d)" using Cons.prems x by auto
  then have upd: "dict_set k v d = d @ [(k, v)]"
    by (induction d) (auto simp: dict_set_def)
  have "distinct (map fst ((d @ [(k, v)]) @ c))" using Cons.prems x by simp
  from Cons.IH [OF this] show ?case using x upd by simp
qed

lemma dict_update_empty: "wf_dict c \<Longrightarrow> dict_update [] c = c"
  using fold_dict_set_append [of "[]" c] by (simp add: dict_update_def wf_dict_def)

lemma map_of_dict_set: "map_of (dict_set k v d) = (map_of d)(k \<mapsto> v)"
  by (simp add: dict_set_def update_conv')

lemma map_of_dict_update:
  "wf_dict c \<Longrightarrow> map_of (dict_update d c) = map_of d ++ map_of c"
proof (induction c arbitrary: d)
  case Nil
  then show ?case by (simp add: dict_update_def)
next
  case (Cons x c)
  obtain k v where x: "x = (k, v)" by (cases x)
  have wf: "wf_dict c" and notin: "k \<notin> fst ` set c"
    using Cons.prems x by (auto simp: wf_dict_def)
  have "map_of (dict_update d (x # c)) = map_of (dict_update (dict_set k v d) c)"
    using x by (simp add: dict_update_def)
  also have "\<dots> = (map_of d)(k \<mapsto> v) ++ map_of c"
    using Cons.IH [OF wf, of "dict_set k v d"] by (simp only: map_of_dict_set)
  also have "\<dots> = map_of d ++ map_of (x # c)"
  proof -
    have none: "map_of c k = None" using notin by (simp add: map_of_eq_None_iff)
    show ?thesis using none x by (auto simp: fun_eq_iff map_add_def split: option.splits)
  qed
  finally show ?case .
qed

lemma keys_dict_set:
  "map fst (dict_set k v d) = (if k \<in> set (map fst d) then map fst d else map fst d @ [k])"
  by (simp add: dict_set_def update_keys)

lemma keys_dict_update_known:
  "set (map fst c) \<subseteq> set (map fst d) \<Longrightarrow> map fst (dict_update d c) = map fst d"
proof (induction c arbitrary: d)
  case Nil
  then show ?case by (simp add: dict_update_def)
next
  case (Cons x c)
  obtain k v where x: "x = (k, v)" by (cases x)
  have k: "k \<in> set (map fst d)" using Cons.prems x by simp
  then have eq: "map fst (dict_set k v d) = map fst d" by (simp add: keys_dict_set)
  have "set (map fst c) \<subseteq> set (map fst (dict_set k v d))" using Cons.prems eq by simp
  from Cons.IH [OF this] show ?case using x eq by (simp add: dict_update_def)
qed

lemma check_config_mismatch_ok_iff:
  "snd (check_config_mismatch e base custom) = Inr () \<longleftrightarrow> set (map fst custom) \<subseteq> set (map fst base)"
  by (auto simp: check_config_mismatch_def key_set_def Let_def filter_empty_conv)

lemma check_config_mismatch_fail:
  "snd (check_config_mismatch e base custom) \<noteq> Inr () \<Longrightarrow> snd (check_config_mismatch e base custom) = Inl SystemExit"
  by (auto simp: check_config_mismatch_def key_set_def Let_def)

lemma reported_map:
  "reported (map (\<lambda>k. Info_not_a_valid_key k (f k)) ks) = map (\<lambda>k. (k, f k)) ks"
  by (induction ks) simp_all

lemma reported_check_config_mismatch:
  "reported (fst (check_config_mismatch e base custom)) =
     map (\<lambda>k. (k, get_close_matches e k (key_set base) 3 (6 / 10)))
       (filter (\<lambda>k. k \<notin> set (map fst base)) (key_set custom))"
  by (simp add: check_config_mismatch_def Let_def reported_map key_set_def)

lemma get_config_dict:
  "get_config e (Config_dict D) ovr =
     (fst (check_config_mismatch e D ovr),
      case snd (check_config_mismatch e D ovr) of Inl err \<Rightarrow> Inl err
      | Inr u \<Rightarrow> Inr (dict_update (dict_update [] D) ovr))"
  by (auto simp: get_config_def split: prod.splits sum.splits)


subsection \<open>Merging defaults and overrides\<close>

lemma get_config_ok_iff:
  "(\<exists>merged. snd (get_config e (Config_dict D) ovr) = Inr merged)
     \<longleftrightarrow> set (map fst ovr) \<subseteq> set (map fst D)"
proof -
  have "(\<exists>merged. snd (get_config e (Config_dict D) ovr) = Inr merged)
          \<longleftrightarrow> snd (check_config_mismatch e D ovr) = Inr ()"
    by (auto simp: get_config_dict split: sum.splits)
  then show ?thesis by (simp add: check_config_mismatch_ok_iff)
qed

lemma get_config_exit:
  "\<not> set (map fst ovr) \<subseteq> set (map fst D) \<Longrightarrow> snd (get_config e (Config_dict D) ovr) = Inl SystemExit"
  using check_config_mismatch_fail [of e D ovr] check_config_mismatch_ok_iff [of e D ovr]
  by (simp add: get_config_dict split: sum.splits)

text \<open>
  C3: merging a default set \<open>D\<close> with an override set \<open>ovr\<close> succeeds if and only if
  every key of \<open>ovr\<close> is a key of \<open>D\<close>. Otherwise the merge ends in \<^verbatim>\<open>sys.exit()\<close>, and
  the log reports exactly the keys of \<open>ovr\<close> that \<open>D\<close> lacks, each once and nothing
  else, each beside the answer of \<^verbatim>\<open>get_close_matches\<close> for that key over the keys of
  \<open>D\<close> with limit 3 and cutoff 0.6; with a matcher that keeps to its limit these are at
  most 3 keys.
\<close>

theorem unknown_keys_reported_then_exit:
  assumes contract:
    "\<And>word possibilities n cutoff. length (get_close_matches e word possibilities n cutoff) \<le> n"
  shows "((\<exists>merged. snd (get_config e (Config_dict D) ovr) = Inr merged)
            \<longleftrightarrow> set (map fst ovr) \<subseteq> set (map fst D))
    \<and> (snd (check_config_mismatch e D ovr) = Inr ()
            \<longleftrightarrow> set (map fst ovr) \<subseteq> set (map fst D))
    \<and> (\<not> set (map fst ovr) \<subseteq> set (map fst D)
            \<longrightarrow> snd (get_config e (Config_dict D) ovr) = Inl SystemExit)
    \<and> set (map fst (reported (fst (get_config e (Config_dict D) ovr))))
          = set (map fst ovr) - set (map fst D)
    \<and> distinct (map fst (reported (fst (get_config e (Config_dict D) ovr))))
    \<and> length (reported (fst (get_config e (Config_dict D) ovr)))
          = length (fst (get_config e (Config_dict D) ovr))
    \<and> (\<forall>(k, similar) \<in> set (reported (fst (get_config e (Config_dict D) ovr))).
          similar = get_close_matches e k (key_set D) 3 (6 / 10) \<and> length similar \<le> 3)"
proof -
  let ?evs = "fst (get_config e (Config_dict D) ovr)"
  have evs: "?evs = fst (check_config_mismatch e D ovr)" by (simp add: get_config_dict)
  have rep: "reported ?evs =
      map (\<lambda>k. (k, get_close_matches e k (key_set D) 3 (6 / 10)))
        (filter (\<lambda>k. k \<notin> set (map fst D)) (key_set ovr))"
    unfolding evs by (rule reported_check_config_mismatch)
  have keys: "map fst (reported ?evs) = filter (\<lambda>k. k \<notin> set (map fst D)) (key_set ovr)"
    unfolding rep by (simp add: comp_def)
  have 4: "set (map fst (reported ?evs)) = set (map fst ovr) - set (map fst D)"
    unfolding keys by (auto simp: key_set_def)
  have 5: "distinct (map fst (reported ?evs))"
    unfolding keys by (simp add: key_set_def)
  have 6: "length (reported ?evs) = length ?evs"
    unfolding rep unfolding evs by (simp add: check_config_mismatch_def Let_def key_set_def)
  have 7: "\<forall>(k, similar) \<in> set (reported ?evs).
          similar = get_close_matches e k (key_set D) 3 (6 / 10) \<and> length similar \<le> 3"
    unfolding rep using contract by auto
  show ?thesis
    using get_config_ok_iff [of e D ovr] check_config_mismatch_ok_iff [of e D ovr]
      get_config_exit [of ovr D e] 4 5 6 7
    by blast
qed

theorem unknown_keys_reported_then_exit_witness:
  "snd (get_config env0 (Config_dict defaults0) bad0) = Inl SystemExit
   \<and> set (map fst (reported (fst (get_config env0 (Config_dict defaults0) bad0)))) = {''imgs'', ''shwo''}
   \<and> (\<exists>merged. snd (get_config env0 (Config_dict defaults0) good0) = Inr merged)"
proof -
  have c: "\<And>word possibilities n cutoff.
      length (get_close_matches env0 word possibilities n cutoff) \<le> n"
    by (simp add: env0_def)
  have bad: "\<not> set (map fst bad0) \<subseteq> set (map fst defaults0)"
    and diff: "set (map fst bad0) - set (map fst defaults0) = {''imgs'', ''shwo''}"
    and good: "set (map fst good0) \<subseteq> set (map fst defaults0)"
    by (auto simp: bad0_def good0_def defaults0_def)
  show ?thesis
    using unknown_keys_reported_then_exit [OF c, of defaults0 bad0]
      unknown_keys_reported_then_exit [OF c, of defaults0 good0] bad diff good
    by simp
qed

text \<open>
  C4: when the merge of a default set \<open>D\<close> and an override set \<open>ovr\<close> succeeds, the
  merged configuration has the keys of \<open>D\<close>, and maps each of them to the override's
  value when the override has the key and to the default's value otherwise; the value is
  taken whole, so a nested mapping of the default is replaced, not merged into.
\<close>

theorem merged_config_is_overlay:
  assumes "wf_dict D" and "wf_dict ovr"
    and "config = Config_dict D \<or> (\<exists>p. config = Config_path p \<and> yaml_load e p = Some D)"
    and "snd (get_config e config ovr) = Inr merged"
  shows "(\<forall>k \<in> set (map fst D).
            map_of merged k = (if k \<in> set (map fst ovr) then map_of ovr k else map_of D k))
         \<and> map fst merged = map fst D"
proof -
  have eq: "get_config e config ovr = get_config e (Config_dict D) ovr"
    using assms(3) by (auto simp: get_config_def call_yaml_load_def)
  then have m: "snd (get_config e (Config_dict D) ovr) = Inr merged" using assms(4) by simp
  then have sub: "set (map fst ovr) \<subseteq> set (map fst D)"
    using get_config_ok_iff [of e D ovr] by blast
  have merged: "merged = dict_update D ovr"
    using m dict_update_empty [OF assms(1)] by (simp add: get_config_dict split: sum.splits)
  have look: "map_of merged = map_of D ++ map_of ovr"
    unfolding merged by (rule map_of_dict_update [OF assms(2)])
  have "map_of merged k = (if k \<in> set (map fst ovr) then map_of ovr k else map_of D k)" for k
  proof (cases "k \<in> set (map fst ovr)")
    case True
    then have "map_of ovr k \<noteq> None" by (simp add: map_of_eq_None_iff)
    with True show ?thesis unfolding look by (auto simp: map_add_def split: option.splits)
  next
    case False
    then have "map_of ovr k = None" by (simp add: map_of_eq_None_iff)
    with False show ?thesis unfolding look by (simp add: map_add_def)
  qed
  moreover have "map fst merged = map fst D"
    unfolding merged by (rule keys_dict_update_known [OF sub])
  ultimately show ?thesis by simp
qed

theorem merged_config_is_overlay_witness:
  "snd (get_config env0 (Config_dict defaults0) good0)
     = Inr [(''task'', PStr ''detect''), (''mode'', PStr ''train''), (''data'', PNone),
            (''imgsz'', PInt 320), (''show'', PBool False), (''save'', PBool True),
            (''augment'', PDict [(''hsv'', PInt 5)])]
   \<and> map_of (case snd (get_config env0 (Config_path ''default.yaml'') good0) of Inr m \<Rightarrow> m | Inl err \<Rightarrow> [])
        ''augment'' = Some (PDict [(''hsv'', PInt 5)])"
proof -
  have wf: "wf_dict defaults0" "wf_dict good0"
    by (simp_all add: wf_dict_def defaults0_def good0_def)
  have g: "snd (get_config env0 (Config_dict defaults0) good0)
     = Inr [(''task'', PStr ''detect''), (''mode'', PStr ''train''), (''data'', PNone),
            (''imgsz'', PInt 320), (''show'', PBool False), (''save'', PBool True),
            (''augment'', PDict [(''hsv'', PInt 5)])]"
    by (simp add: get_config_def check_config_mismatch_def key_set_def Let_def defaults0_def
        good0_def dict_update_def dict_set_def)
  have p: "yaml_load env0 ''default.yaml'' = Some defaults0" by (simp add: env0_def)
  have g2: "snd (get_config env0 (Config_path ''default.yaml'') good0) = snd (get_config env0 (Config_dict defaults0) good0)"
    by (simp add: get_config_def call_yaml_load_def p)
  show ?thesis
    using merged_config_is_overlay [OF wf, of "Config_path ''default.yaml''" env0, OF _ g2 [unfolded g]] p g g2
    by (simp add: defaults0_def good0_def)
qed


subsection \<open>Classifying one token\<close>

lemma split_on_no_sep: "sep \<notin> set p \<Longrightarrow> split_on sep p = [p]"
  by (induction p) auto

lemma split_on_append_sep:
  "sep \<notin> set p \<Longrightarrow> \<exists>pre. pre \<noteq> [] \<and> split_on sep (xs @ sep # p) = pre @ [p]"
proof (induction xs)
  case Nil
  then show ?case by (simp add: split_on_no_sep)
next
  case (Cons x xs)
  then obtain pre where pre: "pre \<noteq> []" "split_on sep (xs @ sep # p) = pre @ [p]" by blast
  then obtain y ys where y: "pre = y # ys" by (cases pre) auto
  show ?case
  proof (cases "x = sep")
    case True
    then show ?thesis using pre by (intro exI [of _ "[] # pre"]) simp
  next
    case False
    then show ?thesis using pre y by (intro exI [of _ "(x # y) # ys"]) simp
  qed
qed

lemma last_split_on:
  "sep \<notin> set p \<Longrightarrow> last (split_on sep (xs @ sep # p)) = p"
  using split_on_append_sep [of sep p xs] by auto

lemma map_of_filter_key:
  "map_of (filter (\<lambda>(k, v). k \<noteq> c) d) k = (if k = c then None else map_of d k)"
  by (induction d) auto

lemma wf_dict_filter: "wf_dict d \<Longrightarrow> wf_dict (filter P d)"
  by (simp add: wf_dict_def distinct_map_filter)

text \<open>
  C7: a token that starts with \<^verbatim>\<open>cfg=\<close> replaces the whole override set: whatever was
  accumulated before, the overrides after the token are exactly the entries of the
  loaded document other than its \<open>cfg\<close> entry, in the document's order, and a notice is
  logged. The document is the one loaded from the text after the last \<^verbatim>\<open>=\<close> of the token,
  which is the path itself when the path holds no \<^verbatim>\<open>=\<close>.
\<close>

theorem cfg_token_replaces_overrides:
  assumes "startswith a ''cfg=''"
    and "yaml_load e (last (split_on CHR ''='' a)) = Some doc"
    and "wf_dict doc"
  shows "parse_token e defaults overrides a =
           ([Info_overriding (last (split_on CHR ''='' a))],
            Continue (filter (\<lambda>(k, v). k \<noteq> ''cfg'') doc))
       \<and> (\<forall>k. map_of (filter (\<lambda>(k, v). k \<noteq> ''cfg'') doc) k
                 = (if k = ''cfg'' then None else map_of doc k))
       \<and> (\<forall>path. a = ''cfg='' @ path \<and> CHR ''='' \<notin> set path
                 \<longrightarrow> last (split_on CHR ''='' a) = path)"
proof -
  have a: "a = ''cfg='' @ drop (length ''cfg='') a"
    using append_take_drop_id [of "length ''cfg=''" a] assms(1) unfolding startswith_def
    by metis
  have mem: "CHR ''='' \<in> set a" by (subst a) simp
  have flt: "dict_update [] (filter (\<lambda>(k, v). k \<notin> set [''cfg'']) doc) = filter (\<lambda>(k, v). k \<noteq> ''cfg'') doc"
    using dict_update_empty [OF wf_dict_filter [OF assms(3)], of "\<lambda>(k, v). k \<noteq> ''cfg''"] by simp
  have 1: "parse_token e defaults overrides a =
           ([Info_overriding (last (split_on CHR ''='' a))],
            Continue (filter (\<lambda>(k, v). k \<noteq> ''cfg'') doc))"
    using mem assms(1,2) flt by (simp add: parse_token_def call_yaml_load_def Let_def)
  have 3: "last (split_on CHR ''='' a) = path" if "a = ''cfg='' @ path \<and> CHR ''='' \<notin> set path" for path
    using that last_split_on [of "CHR ''=''" path "''cfg''"] by simp
  show ?thesis using 1 3 by (simp add: map_of_filter_key)
qed

theorem cfg_token_replaces_overrides_witness:
  "parse_token env0 defaults0 accumulated0 ''cfg=custom.yaml''
     = ([Info_overriding ''custom.yaml''], Continue [(''imgsz'', PInt 320), (''show'', PBool True)])"
proof -
  have l: "last (split_on CHR ''='' ''cfg=custom.yaml'') = ''custom.yaml''" by simp
  have s: "startswith ''cfg=custom.yaml'' ''cfg=''" by (simp add: startswith_def)
  have y: "yaml_load env0 (last (split_on CHR ''='' ''cfg=custom.yaml'')) = Some custom0"
    unfolding l by (simp add: env0_def)
  have w: "wf_dict custom0" by (simp add: wf_dict_def custom0_def)
  show ?thesis
    using cfg_token_replaces_overrides [OF s y w, of defaults0 accumulated0]
    by (simp add: custom0_def)
qed

text \<open>
  C8: a bare token (no \<^verbatim>\<open>=\<close>) that is no task, no mode and no special command, and that
  is a key of the defaults: when its default is the boolean false, the override of that
  key is set to true and every other override is kept; when its default is anything
  else, a syntax error says that the argument needs a value.
\<close>

theorem bare_default_key_is_flag_or_error:
  assumes "CHR ''='' \<notin> set a" and "a \<notin> set tasks" and "a \<notin> set modes"
    and "a \<notin> set (map fst special_modes)" and "a \<in> set (map fst defaults)"
  shows "(map_of defaults a = Some (PBool False) \<longrightarrow>
            parse_token e defaults overrides a = ([], Continue (dict_set a (PBool True) overrides))
            \<and> map_of (dict_set a (PBool True) overrides) = (map_of overrides)(a \<mapsto> PBool True))
       \<and> (map_of defaults a \<noteq> Some (PBool False) \<longrightarrow>
            parse_token e defaults overrides a = ([], Raise (SyntaxError_missing_equals a)))"
  using assms by (simp add: parse_token_def map_of_dict_set)

theorem bare_default_key_is_flag_or_error_witness:
  "parse_token env0 defaults0 accumulated0 ''show''
     = ([], Continue [(''imgsz'', PStr ''64''), (''batch'', PStr ''8''), (''task'', PStr ''segment''),
                      (''show'', PBool True)])
   \<and> parse_token env0 defaults0 accumulated0 ''save'' = ([], Raise (SyntaxError_missing_equals ''save''))
   \<and> parse_token env0 defaults0 accumulated0 ''imgsz'' = ([], Raise (SyntaxError_missing_equals ''imgsz''))"
proof -
  have h: "CHR ''='' \<notin> set ''show''" "''show'' \<notin> set tasks" "''show'' \<notin> set modes"
    "''show'' \<notin> set (map fst special_modes)" "''show'' \<in> set (map fst defaults0)"
    "CHR ''='' \<notin> set ''save''" "''save'' \<notin> set tasks" "''save'' \<notin> set modes"
    "''save'' \<notin> set (map fst special_modes)" "''save'' \<in> set (map fst defaults0)"
    "CHR ''='' \<notin> set ''imgsz''" "''imgsz'' \<notin> set tasks" "''imgsz'' \<notin> set modes"
    "''imgsz'' \<notin> set (map fst special_modes)" "''imgsz'' \<in> set (map fst defaults0)"
    by (simp_all add: tasks_def modes_def special_modes_def defaults0_def)
  have m: "map_of defaults0 ''show'' = Some (PBool False)" "map_of defaults0 ''save'' = Some (PBool True)"
    "map_of defaults0 ''imgsz'' = Some (PInt 640)"
    by (simp_all add: defaults0_def)
  show ?thesis
    using bare_default_key_is_flag_or_error [OF h(1-5), of env0 accumulated0]
      bare_default_key_is_flag_or_error [OF h(6-10), of env0 accumulated0]
      bare_default_key_is_flag_or_error [OF h(11-15), of env0 accumulated0] m
    by (simp add: accumulated0_def dict_set_def)
qed


subsection \<open>Operations invoked by a dispatch\<close>










lemma dispatch_ok_resolved:
  "snd (dispatch e defaults overrides) = Inr u \<Longrightarrow>
     \<exists>fc. snd (resolve_operation e defaults overrides) = Inr fc"
  by (cases "resolve_operation e defaults overrides")
    (auto simp: dispatch_def split: sum.splits option.splits)






subsection \<open>The facade\<close>

lemma dict_get_dict_set:
  "dict_get (dict_set k v d) k' = (if k' = k then v else dict_get d k')"
  by (simp add: dict_get_def map_of_dict_set)

text \<open>
  C9: \<^verbatim>\<open>val\<close> on a facade with no model bound fails with "model not initialized" and
  does nothing else: no validator is constructed or called. With a model bound, a
  configuration that \<^verbatim>\<open>get_config\<close> resolves reaches the validator with its \<open>data\<close> entry
  set to the \<open>data\<close> argument and its \<open>task\<close> entry set to the facade's task, every other
  entry as resolved; a failure of \<^verbatim>\<open>get_config\<close> is the failure of \<^verbatim>\<open>val\<close>.
\<close>

theorem val_needs_model_and_sets_data_task:
  "(model self = None \<longrightarrow> val e gc self data kwargs = ([], Inl Exception_model_not_initialized))
   \<and> (\<forall>m evs args vc.
         model self = Some m \<and> gc (Config_path (DEFAULT_CONFIG e)) kwargs = (evs, Inr args)
           \<and> ValidatorClass self = Some vc \<longrightarrow>
         (\<exists>args'. val e gc self data kwargs
                     = (evs @ [Call_validator_init vc args', Call_validator vc], Inr ())
            \<and> map_of args' ''data'' = Some data
            \<and> map_of args' ''task'' = Some (task self)
            \<and> (\<forall>k. k \<noteq> ''data'' \<and> k \<noteq> ''task'' \<longrightarrow> map_of args' k = map_of args k)))
   \<and> (\<forall>m evs err.
         model self = Some m \<and> gc (Config_path (DEFAULT_CONFIG e)) kwargs = (evs, Inl err) \<longrightarrow>
         val e gc self data kwargs = (evs, Inl err))"
  by (auto simp: val_def Let_def map_of_dict_set)

theorem val_needs_model_and_sets_data_task_witness:
  "val env0 (get_config env0) (YOLO_init ''v8'') (PStr ''coco128.yaml'') good0
     = ([], Inl Exception_model_not_initialized)
   \<and> val env0 (get_config env0) facade0 (PStr ''coco128.yaml'') good0
     = ([Call_validator_init ''yolo.v8.detect.DetectionValidator''
           [(''task'', PStr ''detect''), (''mode'', PStr ''train''), (''data'', PStr ''coco128.yaml''),
            (''imgsz'', PInt 320), (''show'', PBool False), (''save'', PBool True),
            (''augment'', PDict [(''hsv'', PInt 5)])],
         Call_validator ''yolo.v8.detect.DetectionValidator''], Inr ())"
proof -
  have 1: "model (YOLO_init ''v8'') = None" by (simp add: YOLO_init_def)
  have 2: "val env0 (get_config env0) facade0 (PStr ''coco128.yaml'') good0
     = ([Call_validator_init ''yolo.v8.detect.DetectionValidator''
           [(''task'', PStr ''detect''), (''mode'', PStr ''train''), (''data'', PStr ''coco128.yaml''),
            (''imgsz'', PInt 320), (''show'', PBool False), (''save'', PBool True),
            (''augment'', PDict [(''hsv'', PInt 5)])],
         Call_validator ''yolo.v8.detect.DetectionValidator''], Inr ())"
    by (simp add: val_def facade0_def YOLO_init_def env0_def get_config_def call_yaml_load_def
        check_config_mismatch_def key_set_def Let_def defaults0_def good0_def dict_update_def
        dict_set_def)
  show ?thesis
    using val_needs_model_and_sets_data_task [of "YOLO_init ''v8''" env0 "get_config env0"
        "PStr ''coco128.yaml''" good0] 1 2
    by simp
qed

text \<open>
  C6, as the code has it: on a facade with a model or a checkpoint bound, \<^verbatim>\<open>train\<close>
  fails with "dataset not provided" exactly when the overrides it tests hold no \<open>data\<close>
  entry or a false one (None, false, zero, an empty string, list or mapping). The
  overrides tested are the keyword arguments, or the document loaded from the \<open>cfg\<close>
  argument when that argument is true; the defaults are not consulted.
\<close>

theorem train_missing_dataset_iff:
  assumes "model self \<noteq> None \<or> ckpt_bound self"
  shows "snd (train e self kwargs) = Inl Exception_dataset_not_provided \<longleftrightarrow>
      (if truthy (dict_get kwargs ''cfg'')
       then (\<exists>p doc. check_yaml e (dict_get kwargs ''cfg'') = Some p \<and> yaml_load e p = Some doc
                      \<and> \<not> truthy (dict_get doc ''data''))
       else \<not> truthy (dict_get kwargs ''data''))"
  using assms
  by (auto simp: train_def Let_def dict_get_dict_set call_check_yaml_def call_yaml_load_def
      split: option.splits sum.splits)

theorem train_missing_dataset_iff_witness:
  "snd (train env0 facade0 [(''data'', PStr ''coco128.yaml''), (''imgsz'', PInt 320)])
      \<noteq> Inl Exception_dataset_not_provided
   \<and> snd (train env0 facade0 [(''imgsz'', PInt 320)]) = Inl Exception_dataset_not_provided
   \<and> snd (train env0 facade0 [(''data'', PNone)]) = Inl Exception_dataset_not_provided
   \<and> snd (train env0 facade0 [(''cfg'', PStr ''custom.yaml''), (''data'', PStr ''coco128.yaml'')])
        = Inl Exception_dataset_not_provided"
proof -
  have b: "model facade0 \<noteq> None \<or> ckpt_bound facade0" by (simp add: facade0_def YOLO_init_def)
  have c: "check_yaml env0 (PStr ''custom.yaml'') = Some ''custom.yaml''"
    "yaml_load env0 ''custom.yaml'' = Some custom0" "\<not> truthy (dict_get custom0 ''data'')"
    by (simp_all add: env0_def custom0_def dict_get_def)
  show ?thesis
    using train_missing_dataset_iff [OF b, of env0 "[(''data'', PStr ''coco128.yaml''), (''imgsz'', PInt 320)]"]
      train_missing_dataset_iff [OF b, of env0 "[(''imgsz'', PInt 320)]"]
      train_missing_dataset_iff [OF b, of env0 "[(''data'', PNone)]"]
      train_missing_dataset_iff [OF b, of env0 "[(''cfg'', PStr ''custom.yaml''), (''data'', PStr ''coco128.yaml'')]"]
      c
    by (simp add: dict_get_def)
qed

text \<open>
  C6 as stated fails: with a model bound and the keyword argument \<^verbatim>\<open>data=''\<close>, the \<open>data\<close>
  option is present in the overrides and in their merge with the defaults, and \<^verbatim>\<open>train\<close>
  still fails with "dataset not provided".
\<close>

theorem train_rejects_data_that_is_present:
  "model facade0 \<noteq> None
   \<and> map_of [(''data'', PStr '''')] ''data'' = Some (PStr '''')
   \<and> snd (get_config env0 (Config_dict defaults0) [(''data'', PStr '''')])
       = Inr [(''task'', PStr ''detect''), (''mode'', PStr ''train''), (''data'', PStr ''''),
            (''imgsz'', PInt 640), (''show'', PBool False), (''save'', PBool True),
            (''augment'', PDict [(''hsv'', PInt 1), (''flip'', PInt 2)])]
   \<and> train env0 facade0 [(''data'', PStr '''')] = ([], Inl Exception_dataset_not_provided)"
  by (simp add: facade0_def YOLO_init_def train_def ckpt_bound_def dict_get_def dict_set_def Let_def
      get_config_def check_config_mismatch_def key_set_def defaults0_def dict_update_def)

text \<open>
  C1 fails on the code: \<^verbatim>\<open>resume\<close> tests the \<open>task\<close> argument first. With the checkpoint
  \<^verbatim>\<open>seg.pt\<close>, trained for segmentation, and the task argument \<^verbatim>\<open>detect\<close>, the detection
  trainer is built for task \<^verbatim>\<open>detect\<close>; with the task argument \<^verbatim>\<open>pose\<close> the call raises
  "unrecognised task" although the checkpoint names a task. Only without a task
  argument is the task read from the checkpoint.
\<close>

theorem resume_uses_task_argument_not_checkpoint:
  "checkpoint_task env0 (Some ''seg.pt'') = Inr (PStr ''segment'')
   \<and> fst (resume env0 (YOLO_init ''v8'') (Some ''detect'') (Some ''seg.pt''))
       = [Call_trainer_init ''yolo.v8.detect.DetectionTrainer''
            [(''task'', PStr ''detect''), (''resume'', PStr ''seg.pt'')],
          Call_trainer_train ''yolo.v8.detect.DetectionTrainer'']
   \<and> resume env0 (YOLO_init ''v8'') (Some ''pose'') (Some ''seg.pt'')
       = ([], Inl (Exception_unrecognised_task ''pose''))
   \<and> fst (resume env0 (YOLO_init ''v8'') None (Some ''seg.pt''))
       = [Call_trainer_init ''yolo.v8.segment.SegmentationTrainer''
            [(''task'', PStr ''segment''), (''resume'', PStr ''seg.pt'')],
          Call_trainer_train ''yolo.v8.segment.SegmentationTrainer'']"
  by (simp add: checkpoint_task_def call_torch_load_def env0_def resume_def lower_def lower_char_def
      MODEL_MAP_def guess_ops_from_task_def YOLO_init_def replace_def startswith_def Let_def)


end
